theory Spec2Isabelle
  imports Complex_Main
begin

section \<open>Python primitives used by the services\<close>

text \<open>
  Exceptions are values. \<open>ValueError\<close>, \<open>FileNotFoundError\<close>, \<open>IndexError\<close> and
  \<open>JSONDecodeError\<close> are the exceptions the repository's own statements raise (or the
  built-in operations they use); \<open>ProviderError\<close> wraps whatever an external library
  (the OpenAI client, the ChromaDB collection) raises: the two contract violations of an
  index write, or any other rejection with the library's description. \<open>OpenFailed\<close> is
  the \<open>FileNotFoundError\<close> that \<open>open\<close> raises for a path.
\<close>

datatype provider_error = DimensionMismatch | LengthMismatch | Rejected string

text \<open>\<open>Path(directory) / name\<close>\<close>

datatype path = Div string string

datatype error =
    ValueError string
  | FileNotFoundError string
  | OpenFailed path
  | IndexError
  | JSONDecodeError
  | ProviderError provider_error

text \<open>
  \<open>xs[start:]\<close>: a negative start counts from the end and is clipped at the front, a
  start beyond the end gives the empty list. \<open>xs[-n:]\<close> is \<open>slice_from (- n) xs\<close>;
  for \<open>n = 0\<close> the start is \<open>0\<close> and the slice is the whole list.
\<close>

definition slice_from :: "int \<Rightarrow> 'a list \<Rightarrow> 'a list" where
  "slice_from start xs =
     (let n = int (length xs);
          s = (if start < 0 then max 0 (start + n) else min start n)
      in drop (nat s) xs)"

text \<open>\<open>xs[0]\<close> raises \<open>IndexError\<close> on an empty list.\<close>

definition first_item :: "'a list \<Rightarrow> error + 'a" where
  "first_item xs = (case xs of [] \<Rightarrow> Inl IndexError | x # _ \<Rightarrow> Inr x)"

text \<open>\<open>xs[i]\<close> for the non-negative indices produced by \<open>range\<close>.\<close>

definition item :: "'a list \<Rightarrow> nat \<Rightarrow> error + 'a" where
  "item xs i = (if i < length xs then Inr (xs ! i) else Inl IndexError)"

text \<open>
  Text is a list of characters. \<open>str.isspace\<close> on the characters below U+0100:
  tab to carriage return, the four separators U+001C..U+001F, space, U+0085 and U+00A0.
\<close>

definition isspace :: "char \<Rightarrow> bool" where
  "isspace c =
     (let k = (of_char c :: nat)
      in (9 \<le> k \<and> k \<le> 13) \<or> (28 \<le> k \<and> k \<le> 32) \<or> k = 133 \<or> k = 160)"

definition lstrip :: "string \<Rightarrow> string" where
  "lstrip s = dropWhile isspace s"

definition rstrip :: "string \<Rightarrow> string" where
  "rstrip s = rev (dropWhile isspace (rev s))"

definition strip :: "string \<Rightarrow> string" where
  "strip s = rstrip (lstrip s)"

text \<open>\<open>text.replace("\n", " ")\<close>: every line feed becomes one space.\<close>

definition replace_newline :: "string \<Rightarrow> string" where
  "replace_newline s = map (\<lambda>c. if c = CHR ''\<newline>'' then CHR '' '' else c) s"

section \<open>memory_service.py\<close>

type_synonym user_id = string
type_synonym timestamp = string

record interaction =
  timestamp :: timestamp
  user :: string
  assistant :: string
  retrieved_docs :: nat

record history =
  user_id :: user_id
  messages :: "interaction list"
  created_at :: timestamp
  updated_at :: timestamp

text \<open>
  The conversation files. A file holds either a complete JSON document, which
  \<open>json.load\<close> turns back into the dictionary that \<open>json.dump\<close> wrote, or an incomplete
  text (what \<open>open(user_file, 'w')\<close> leaves until the dump is complete), on which
  \<open>json.load\<close> raises.

  Files are found by path, not by user id. What a path names is the file system's
  matter (pathlib drops \<open>.\<close> components, the system follows \<open>..\<close> and links), so it is a
  component of the disk: \<open>place_of\<close> gives the file position that a path names, and two
  paths may name one position; or it says that a directory on the way is missing, in
  which case \<open>exists()\<close> is false and \<open>open(path, 'w')\<close> raises \<open>FileNotFoundError\<close>. The
  services never change what paths name, only what the positions hold. A position that
  exists but refuses to be read or written (a directory, a file without permission) is
  not modelled.
\<close>

datatype file_content = Document history | Truncated

datatype place = Place string | No_such_directory

record disk =
  place_of :: "path \<Rightarrow> place"
  stored :: "string \<rightharpoonup> file_content"

text \<open>\<open>_get_user_file\<close>: \<open>self.memory_path / f"{user_id}.json"\<close>\<close>

definition get_user_file :: "string \<Rightarrow> user_id \<Rightarrow> path" where
  "get_user_file memory_path uid = Div memory_path (uid @ ''.json'')"

text \<open>\<open>user_file.exists()\<close>\<close>

definition path_exists :: "disk \<Rightarrow> path \<Rightarrow> bool" where
  "path_exists d p = (case place_of d p of Place n \<Rightarrow> stored d n \<noteq> None | No_such_directory \<Rightarrow> False)"

text \<open>\<open>with open(user_file, 'r') as f: return json.load(f)\<close>, for a path that exists.\<close>

definition json_load :: "disk \<Rightarrow> path \<Rightarrow> error + history" where
  "json_load d p =
     (case place_of d p of
        No_such_directory \<Rightarrow> Inl (OpenFailed p)
      | Place n \<Rightarrow>
          (case stored d n of
             None \<Rightarrow> Inl (OpenFailed p)
           | Some Truncated \<Rightarrow> Inl JSONDecodeError
           | Some (Document h) \<Rightarrow> Inr h))"

text \<open>
  \<open>datetime.now().isoformat()\<close> is read at four places; the readings of one call are
  inputs of the model.
\<close>

record readings =
  new_created :: timestamp
  new_updated :: timestamp
  at_interaction :: timestamp
  at_update :: timestamp

definition get_history :: "string \<Rightarrow> readings \<Rightarrow> disk \<Rightarrow> user_id \<Rightarrow> error + history" where
  "get_history memory_path clk d uid =
     (let user_file = get_user_file memory_path uid
      in if path_exists d user_file then json_load d user_file
         else Inr \<lparr>user_id = uid, messages = [],
                   created_at = new_created clk, updated_at = new_updated clk\<rparr>)"

text \<open>
  \<open>_save_history\<close>: \<open>with open(user_file, 'w') as f: json.dump(history, f, indent=2)\<close>.
  Opening for writing raises when a directory of the path is missing; otherwise it
  truncates the file at once (creating it if need be) and gives the handle \<open>f\<close>, here
  the position of the file. The document is complete when the dump is.
\<close>

definition open_w :: "path \<Rightarrow> disk \<Rightarrow> error + string \<times> disk" where
  "open_w p d =
     (case place_of d p of
        No_such_directory \<Rightarrow> Inl (OpenFailed p)
      | Place n \<Rightarrow> Inr (n, d\<lparr>stored := (stored d)(n \<mapsto> Truncated)\<rparr>))"

definition json_dump :: "history \<Rightarrow> string \<Rightarrow> disk \<Rightarrow> disk" where
  "json_dump h f d = d\<lparr>stored := (stored d)(f \<mapsto> Document h)\<rparr>"

definition save_history :: "string \<Rightarrow> user_id \<Rightarrow> history \<Rightarrow> disk \<Rightarrow> error + disk" where
  "save_history memory_path uid h d =
     (case open_w (get_user_file memory_path uid) d of
        Inl e \<Rightarrow> Inl e
      | Inr (f, d1) \<Rightarrow> Inr (json_dump h f d1))"

text \<open>
  The same write stopped (by a crash, or by an I/O error of the write) after the first
  \<open>k\<close> of its two effects, the open and the dump.
\<close>

definition save_history_stopped ::
  "nat \<Rightarrow> string \<Rightarrow> user_id \<Rightarrow> history \<Rightarrow> disk \<Rightarrow> error + disk" where
  "save_history_stopped k memory_path uid h d =
     (if k = 0 then Inr d
      else case open_w (get_user_file memory_path uid) d of
             Inl e \<Rightarrow> Inl e
           | Inr (f, d1) \<Rightarrow> if k = 1 then Inr d1 else Inr (json_dump h f d1))"

text \<open>
  The body of \<open>add_interaction\<close> between the read and the write: build the interaction,
  append it, cut the list to the sliding window, stamp \<open>updated_at\<close>.
\<close>

definition appended :: "int \<Rightarrow> readings \<Rightarrow> string \<Rightarrow> string \<Rightarrow> 'd list option \<Rightarrow> history \<Rightarrow> history" where
  "appended max_history clk user_message assistant_message retrieved_context history =
     (let interaction =
            \<lparr>timestamp = at_interaction clk, user = user_message,
             assistant = assistant_message,
             retrieved_docs =
               (case retrieved_context of
                  None \<Rightarrow> 0
                | Some ds \<Rightarrow> if ds = [] then 0 else length ds)\<rparr>;
          history = history\<lparr>messages := messages history @ [interaction]\<rparr>;
          history =
            (if int (length (messages history)) > max_history
             then history\<lparr>messages := slice_from (- max_history) (messages history)\<rparr>
             else history)
      in history\<lparr>updated_at := at_update clk\<rparr>)"

definition add_interaction ::
  "int \<Rightarrow> string \<Rightarrow> readings \<Rightarrow> user_id \<Rightarrow> string \<Rightarrow> string \<Rightarrow> 'd list option \<Rightarrow> disk
     \<Rightarrow> error + disk" where
  "add_interaction max_history memory_path clk uid user_message assistant_message
       retrieved_context d =
     (case get_history memory_path clk d uid of
        Inl e \<Rightarrow> Inl e
      | Inr history \<Rightarrow>
          save_history memory_path uid
            (appended max_history clk user_message assistant_message retrieved_context history)
            d)"

text \<open>The same call with its write stopped after \<open>k\<close> effects.\<close>

definition add_interaction_stopped ::
  "nat \<Rightarrow> int \<Rightarrow> string \<Rightarrow> readings \<Rightarrow> user_id \<Rightarrow> string \<Rightarrow> string \<Rightarrow> 'd list option \<Rightarrow> disk
     \<Rightarrow> error + disk" where
  "add_interaction_stopped k max_history memory_path clk uid user_message assistant_message
       retrieved_context d =
     (case get_history memory_path clk d uid of
        Inl e \<Rightarrow> Inl e
      | Inr history \<Rightarrow>
          save_history_stopped k memory_path uid
            (appended max_history clk user_message assistant_message retrieved_context history)
            d)"

text \<open>What the next \<open>get_history\<close> of the same user finds after a stopped call.\<close>

definition read_after_stop ::
  "nat \<Rightarrow> int \<Rightarrow> string \<Rightarrow> readings \<Rightarrow> user_id \<Rightarrow> string \<Rightarrow> string \<Rightarrow> 'd list option \<Rightarrow> disk
     \<Rightarrow> error + history" where
  "read_after_stop k max_history memory_path clk uid user_message assistant_message
       retrieved_context d =
     (case add_interaction_stopped k max_history memory_path clk uid user_message
             assistant_message retrieved_context d of
        Inl e \<Rightarrow> Inl e
      | Inr d' \<Rightarrow> get_history memory_path clk d' uid)"

definition render :: "string \<Rightarrow> interaction list \<Rightarrow> string" where
  "render context msgs =
     foldl (\<lambda>context msg.
              (context @ ''User: '' @ user msg @ ''\<newline>'')
                @ ''Assistant: '' @ assistant msg @ ''\<newline>\<newline>'')
       context msgs"

definition get_conversation_context ::
  "string \<Rightarrow> readings \<Rightarrow> disk \<Rightarrow> user_id \<Rightarrow> int \<Rightarrow> error + string" where
  "get_conversation_context memory_path clk d uid n_messages =
     (case get_history memory_path clk d uid of
        Inl e \<Rightarrow> Inl e
      | Inr history \<Rightarrow>
          let msgs = slice_from (- n_messages) (messages history)
          in if msgs = [] then Inr []
             else Inr (render ''Previous conversation:\<newline>'' msgs))"

text \<open>
  A sequence of \<open>add_interaction\<close> calls for one user, each with its own arguments and
  clock readings; the first exception ends the run.
\<close>

record 'd add_call =
  call_clock :: readings
  call_user_message :: string
  call_assistant_message :: string
  call_retrieved :: "'d list option"

fun add_interactions ::
  "int \<Rightarrow> string \<Rightarrow> user_id \<Rightarrow> 'd add_call list \<Rightarrow> disk \<Rightarrow> error + disk" where
  "add_interactions max_history memory_path uid [] d = Inr d"
| "add_interactions max_history memory_path uid (c # cs) d =
     (case add_interaction max_history memory_path (call_clock c) uid (call_user_message c)
             (call_assistant_message c) (call_retrieved c) d of
        Inl e \<Rightarrow> Inl e
      | Inr d' \<Rightarrow> add_interactions max_history memory_path uid cs d')"

text \<open>The interaction that one call appends.\<close>

definition interaction_of :: "'d add_call \<Rightarrow> interaction" where
  "interaction_of c =
     \<lparr>timestamp = at_interaction (call_clock c), user = call_user_message c,
      assistant = call_assistant_message c,
      retrieved_docs = (case call_retrieved c of None \<Rightarrow> 0 | Some ds \<Rightarrow> length ds)\<rparr>"

text \<open>The last \<open>n\<close> elements of a list (all of them when there are fewer).\<close>

definition last_n :: "nat \<Rightarrow> 'a list \<Rightarrow> 'a list" where
  "last_n n xs = drop (length xs - n) xs"

section \<open>External collaborators and the state they act on\<close>

type_synonym embedding = "real list"

text \<open>A dictionary with string keys keeps its keys in insertion order.\<close>

datatype meta_value = Str string | Num int

type_synonym metadata = "(string \<times> meta_value) list"

fun dict_set :: "'k \<Rightarrow> 'v \<Rightarrow> ('k \<times> 'v) list \<Rightarrow> ('k \<times> 'v) list" where
  "dict_set k v [] = [(k, v)]"
| "dict_set k v ((k', v') # d) =
     (if k' = k then (k, v) # d else (k', v') # dict_set k v d)"


text \<open>
  The \<open>input\<close> argument of \<open>client.embeddings.create\<close>: one string or a list of
  strings.
\<close>

datatype embed_input = Text string | Texts "string list"

text \<open>
  The vector index. Its engine (ChromaDB) is not part of the repository; the state of a
  collection is the dimension fixed when it was created and the records it holds.
\<close>

record index_record =
  rec_id :: string
  rec_embedding :: embedding
  rec_document :: string
  rec_metadata :: metadata

record collection =
  dimension :: nat
  records :: "index_record list"

text \<open>
  The answer of \<open>collection.query\<close>: for each query vector one row of ids, documents,
  metadata and distances.
\<close>

record query_result =
  ids :: "string list list"
  documents :: "string list list"
  metadatas :: "metadata list list"
  distances :: "real list list"

text \<open>Every call to a collaborator is logged in order, with its arguments.\<close>

datatype call =
    Embeddings_create embed_input
  | Chat_completions_create string string
  | Collection_add "string list" "embedding list" "string list" "metadata list"
  | Collection_query "embedding list" int

record world =
  calls :: "call list"
  files :: disk
  collection :: collection

text \<open>A file found by \<open>rglob\<close>: \<open>str(file_path)\<close>, \<open>file_path.name\<close>, \<open>file_path.suffix\<close>.\<close>

record file_path =
  full :: string
  name :: string
  suffix :: string

text \<open>
  The behaviour of the collaborators is a parameter of every service: the embedding and
  chat endpoints, the collection's \<open>add\<close> and \<open>query\<close>, \<open>uuid.uuid4\<close>, the
  directory listing and the readers of the three file formats, the text splitter, and
  the rendering of a float with two decimals.
\<close>

record externals =
  embeddings_create :: "embed_input \<Rightarrow> provider_error + embedding list"
  chat_completions_create :: "string \<Rightarrow> string \<Rightarrow> provider_error + string list"
  collection_add ::
    "collection \<Rightarrow> string list \<Rightarrow> embedding list \<Rightarrow> string list \<Rightarrow> metadata list
       \<Rightarrow> provider_error + collection"
  collection_query :: "collection \<Rightarrow> embedding list \<Rightarrow> int \<Rightarrow> provider_error + query_result"
  uuid4 :: "nat \<Rightarrow> string"
  rglob :: "string \<Rightarrow> file_path list option"
  read_file :: "file_path \<Rightarrow> provider_error + string"
  pdf_pages :: "file_path \<Rightarrow> provider_error + string list"
  docx_paragraphs :: "file_path \<Rightarrow> provider_error + string list"
  split_text :: "string \<Rightarrow> string list"
  format_2f :: "real \<Rightarrow> string"

definition logged :: "call \<Rightarrow> world \<Rightarrow> world" where
  "logged c w = w\<lparr>calls := calls w @ [c]\<rparr>"

definition raised :: "provider_error + 'a \<Rightarrow> error + 'a" where
  "raised r = (case r of Inl e \<Rightarrow> Inl (ProviderError e) | Inr x \<Rightarrow> Inr x)"

subsection \<open>The index engine\<close>

text \<open>
  Modelled from the spec: the engine behind \<open>collection.add\<close> and \<open>collection.query\<close>
  (ChromaDB) is missing from the sources. Section 4.4: an upsert fails with
  \<open>LengthMismatch\<close> if the counts of vectors, texts and metadata differ, and with
  \<open>DimensionMismatch\<close> unless all vectors have the collection's dimension; a query
  answers with at most \<open>k\<close> matches in ascending distance, ties in the index's own
  order. No sequence has a negative length, so a negative \<open>k\<close> is rejected. The metric
  \<open>metric\<close> is fixed when the collection is created.
\<close>

definition engine_add ::
  "collection \<Rightarrow> string list \<Rightarrow> embedding list \<Rightarrow> string list \<Rightarrow> metadata list
     \<Rightarrow> provider_error + collection" where
  "engine_add c is vs ds ms =
     (if length vs \<noteq> length is \<or> length ds \<noteq> length is \<or> length ms \<noteq> length is
      then Inl LengthMismatch
      else if list_ex (\<lambda>v. length v \<noteq> dimension c) vs then Inl DimensionMismatch
      else Inr (c\<lparr>records := records c @
                  map (\<lambda>i. \<lparr>rec_id = is ! i, rec_embedding = vs ! i,
                             rec_document = ds ! i, rec_metadata = ms ! i\<rparr>)
                    [0..<length is]\<rparr>))"

definition nearest :: "(embedding \<Rightarrow> embedding \<Rightarrow> real) \<Rightarrow> collection \<Rightarrow> int \<Rightarrow> embedding \<Rightarrow> index_record list" where
  "nearest metric c k q = take (nat k) (sort_key (\<lambda>r. metric q (rec_embedding r)) (records c))"

definition engine_query ::
  "(embedding \<Rightarrow> embedding \<Rightarrow> real) \<Rightarrow> collection \<Rightarrow> embedding list \<Rightarrow> int
     \<Rightarrow> provider_error + query_result" where
  "engine_query metric c qs k =
     (if k < 0 then Inl (Rejected ''n_results'')
      else Inr \<lparr>ids = map (\<lambda>q. map rec_id (nearest metric c k q)) qs,
                documents = map (\<lambda>q. map rec_document (nearest metric c k q)) qs,
                metadatas = map (\<lambda>q. map rec_metadata (nearest metric c k q)) qs,
                distances =
                  map (\<lambda>q. map (\<lambda>r. metric q (rec_embedding r)) (nearest metric c k q)) qs\<rparr>)"

section \<open>embedding_service.py\<close>

definition generate_embedding :: "externals \<Rightarrow> string \<Rightarrow> world \<Rightarrow> (error + embedding) \<times> world" where
  "generate_embedding ext text w =
     (let text = strip (replace_newline text)
      in if text = [] then (Inl (ValueError ''Text cannot be empty''), w)
         else
           (case raised (embeddings_create ext (Text text)) of
              Inl e \<Rightarrow> Inl e
            | Inr data \<Rightarrow> first_item data,
            logged (Embeddings_create (Text text)) w))"

definition generate_embeddings_batch ::
  "externals \<Rightarrow> string list \<Rightarrow> world \<Rightarrow> (error + embedding list) \<times> world" where
  "generate_embeddings_batch ext texts w =
     (let cleaned_texts = map (\<lambda>text. strip (replace_newline text)) texts
      in (raised (embeddings_create ext (Texts cleaned_texts)),
          logged (Embeddings_create (Texts cleaned_texts)) w))"

text \<open>
  The assumption of an order-preserving provider: the answer to a batch has one vector
  per text, and the vector at position \<open>i\<close> is the one the provider gives for text \<open>i\<close>
  alone.
\<close>

definition order_preserving :: "(embed_input \<Rightarrow> provider_error + embedding list) \<Rightarrow> bool" where
  "order_preserving create =
     (\<forall>ts vs. create (Texts ts) = Inr vs \<longrightarrow>
        length vs = length ts \<and> (\<forall>i<length ts. create (Text (ts ! i)) = Inr [vs ! i]))"

section \<open>vector_store.py\<close>

record chunk =
  content :: string
  metadata :: metadata

record retrieved = chunk +
  relevance_score :: real

definition add_documents ::
  "externals \<Rightarrow> chunk list \<Rightarrow> embedding list \<Rightarrow> world \<Rightarrow> (error + nat) \<times> world" where
  "add_documents ext chunks embeddings w =
     (if length chunks \<noteq> length embeddings
      then (Inl (ValueError ''Number of chunks must match number of embeddings''), w)
      else
        let ids = map (uuid4 ext) [0..<length chunks];
            documents = map content chunks;
            metadatas = map metadata chunks;
            w1 = logged (Collection_add ids embeddings documents metadatas) w
        in case raised (collection_add ext (collection w) ids embeddings documents metadatas) of
             Inl e \<Rightarrow> (Inl e, w1)
           | Inr c \<Rightarrow> (Inr (length chunks), w1\<lparr>collection := c\<rparr>))"

text \<open>\<open>results[key][0][i]\<close>\<close>

definition row_item :: "'a list list \<Rightarrow> nat \<Rightarrow> error + 'a" where
  "row_item rows i = (case first_item rows of Inl e \<Rightarrow> Inl e | Inr row \<Rightarrow> item row i)"

text \<open>The formatting loop of \<open>similarity_search\<close> over \<open>range(len(results['ids'][0]))\<close>.\<close>

fun format_results :: "query_result \<Rightarrow> nat list \<Rightarrow> retrieved list \<Rightarrow> error + retrieved list" where
  "format_results results [] docs = Inr docs"
| "format_results results (i # is) docs =
     (case row_item (documents results) i of
        Inl e \<Rightarrow> Inl e
      | Inr d \<Rightarrow>
          (case row_item (metadatas results) i of
             Inl e \<Rightarrow> Inl e
           | Inr m \<Rightarrow>
               (case row_item (distances results) i of
                  Inl e \<Rightarrow> Inl e
                | Inr x \<Rightarrow>
                    format_results results is
                      (docs @ [\<lparr>content = d, metadata = m, relevance_score = 1 - x\<rparr>]))))"

definition similarity_search ::
  "externals \<Rightarrow> embedding \<Rightarrow> int \<Rightarrow> world \<Rightarrow> (error + retrieved list) \<times> world" where
  "similarity_search ext query_embedding n_results w =
     (case raised (collection_query ext (collection w) [query_embedding] n_results) of
        Inl e \<Rightarrow> Inl e
      | Inr results \<Rightarrow>
          (case first_item (ids results) of
             Inl e \<Rightarrow> Inl e
           | Inr row \<Rightarrow> format_results results [0..<length row] []),
      logged (Collection_query [query_embedding] n_results) w)"

section \<open>document_processor.py\<close>

text \<open>\<open>str.lower\<close> on the characters below U+0100.\<close>

definition lower_char :: "char \<Rightarrow> char" where
  "lower_char c =
     (let k = (of_char c :: nat)
      in if (65 \<le> k \<and> k \<le> 90) \<or> (192 \<le> k \<and> k \<le> 222 \<and> k \<noteq> 215)
         then char_of (k + 32) else c)"

definition lower :: "string \<Rightarrow> string" where
  "lower s = map lower_char s"

definition supported_extensions :: "string list" where
  "supported_extensions = [''.txt'', ''.pdf'', ''.docx'']"

definition read_txt :: "externals \<Rightarrow> file_path \<Rightarrow> error + string" where
  "read_txt ext fp = raised (read_file ext fp)"

definition read_pdf :: "externals \<Rightarrow> file_path \<Rightarrow> error + string" where
  "read_pdf ext fp =
     (case raised (pdf_pages ext fp) of
        Inl e \<Rightarrow> Inl e
      | Inr pages \<Rightarrow> Inr (foldl (\<lambda>text page. text @ page @ ''\<newline>'') [] pages))"

definition read_docx :: "externals \<Rightarrow> file_path \<Rightarrow> error + string" where
  "read_docx ext fp =
     (case raised (docx_paragraphs ext fp) of
        Inl e \<Rightarrow> Inl e
      | Inr paragraphs \<Rightarrow>
          Inr (foldl (\<lambda>text paragraph. text @ paragraph @ ''\<newline>'') [] paragraphs))"

definition extract_text :: "externals \<Rightarrow> file_path \<Rightarrow> error + string" where
  "extract_text ext fp =
     (let extension = lower (suffix fp)
      in if extension = ''.txt'' then read_txt ext fp
         else if extension = ''.pdf'' then read_pdf ext fp
         else if extension = ''.docx'' then read_docx ext fp
         else Inl (ValueError (''Unsupported file type: '' @ extension)))"

text \<open>
  The loop of \<open>load_documents\<close> over the files of the directory: a file whose
  extraction raises is skipped, and so is one whose text is blank.
\<close>

fun load_files :: "externals \<Rightarrow> file_path list \<Rightarrow> chunk list \<Rightarrow> chunk list" where
  "load_files ext [] docs = docs"
| "load_files ext (fp # fps) docs =
     (if lower (suffix fp) \<in> set supported_extensions
      then (case extract_text ext fp of
              Inl e \<Rightarrow> load_files ext fps docs
            | Inr text \<Rightarrow>
                if strip text \<noteq> []
                then load_files ext fps
                       (docs @ [\<lparr>content = text,
                                 metadata = [(''source'', Str (full fp)),
                                             (''filename'', Str (name fp)),
                                             (''file_type'', Str (suffix fp))]\<rparr>])
                else load_files ext fps docs)
      else load_files ext fps docs)"

definition load_documents :: "externals \<Rightarrow> string \<Rightarrow> error + chunk list" where
  "load_documents ext directory =
     (case rglob ext directory of
        None \<Rightarrow> Inl (FileNotFoundError (''Directory not found: '' @ directory))
      | Some fps \<Rightarrow> Inr (load_files ext fps []))"

definition chunks_of :: "externals \<Rightarrow> chunk \<Rightarrow> chunk list" where
  "chunks_of ext doc =
     (let text_chunks = split_text ext (content doc)
      in map (\<lambda>(i, c).
                \<lparr>content = c,
                 metadata =
                   dict_set ''total_chunks'' (Num (int (length text_chunks)))
                     (dict_set ''chunk_id'' (Num (int i)) (metadata doc))\<rparr>)
           (enumerate 0 text_chunks))"

definition chunk_documents :: "externals \<Rightarrow> chunk list \<Rightarrow> chunk list" where
  "chunk_documents ext docs = foldl (\<lambda>chunks doc. chunks @ chunks_of ext doc) [] docs"

section \<open>rag_service.py\<close>

text \<open>\<open>str\<close> of an integer, for the f-strings.\<close>

definition digit_char :: "nat \<Rightarrow> char" where
  "digit_char d = char_of (48 + d)"

function str_nat :: "nat \<Rightarrow> string" where
  "str_nat n = (if n < 10 then [digit_char n] else str_nat (n div 10) @ [digit_char (n mod 10)])"
  by pat_completeness auto
termination
  by (relation "measure (\<lambda>n. n)") auto

declare str_nat.simps [simp del]








definition index_documents :: "externals \<Rightarrow> string \<Rightarrow> world \<Rightarrow> (error + nat) \<times> world" where
  "index_documents ext directory w =
     (case load_documents ext directory of
        Inl e \<Rightarrow> (Inl e, w)
      | Inr docs \<Rightarrow>
          let chunks = chunk_documents ext docs;
              texts = map content chunks
          in (case generate_embeddings_batch ext texts w of
                (Inl e, w1) \<Rightarrow> (Inl e, w1)
              | (Inr embeddings, w1) \<Rightarrow> add_documents ext chunks embeddings w1))"

section \<open>Example data\<close>

definition clock0 :: readings where
  "clock0 = \<lparr>new_created = ''t0'', new_updated = ''t1'', at_interaction = ''t2'', at_update = ''t3''\<rparr>"

definition greeting :: interaction where
  "greeting = \<lparr>timestamp = ''t2'', user = ''hi'', assistant = ''hello'', retrieved_docs = 0\<rparr>"

definition alice_history :: history where
  "alice_history = \<lparr>user_id = ''alice'', messages = [greeting], created_at = ''t0'', updated_at = ''t3''\<rparr>"

text \<open>
  A memory directory without subdirectories, for names without \<open>..\<close>: a leading \<open>./\<close>
  of the name is dropped, and a name with a further separator lies in a directory that
  does not exist. The disk \<open>alice_disk\<close> holds the record of user \<open>alice\<close> and nothing
  else.
\<close>

definition flat_places :: "path \<Rightarrow> place" where
  "flat_places p =
     (case p of
        Div directory file \<Rightarrow>
          let file = (if take 2 file = ''./'' then drop 2 file else file)
          in if CHR ''/'' \<in> set file then No_such_directory
             else Place (directory @ ''/'' @ file))"

definition empty_disk :: disk where
  "empty_disk = \<lparr>place_of = flat_places, stored = Map.empty\<rparr>"

definition alice_disk :: disk where
  "alice_disk = \<lparr>place_of = flat_places, stored = [''mem/alice.json'' \<mapsto> Document alice_history]\<rparr>"

text \<open>
  Collaborators for the examples: an embedding provider that answers every text with the
  one-dimensional vector of its length, a chat provider with one fixed answer, the index
  engine of section 4.4 with a discrete metric, and a directory \<open>docs\<close> holding a blank
  text file, a PDF that cannot be read and a file of another type.
\<close>

definition length_embedder :: "embed_input \<Rightarrow> provider_error + embedding list" where
  "length_embedder inp =
     (case inp of
        Text t \<Rightarrow> Inr [[real (length t)]]
      | Texts ts \<Rightarrow> Inr (map (\<lambda>t. [real (length t)]) ts))"

definition discrete_metric :: "embedding \<Rightarrow> embedding \<Rightarrow> real" where
  "discrete_metric a b = (if a = b then 0 else 1)"

definition docs_listing :: "string \<Rightarrow> file_path list option" where
  "docs_listing directory =
     (if directory = ''docs''
      then Some [\<lparr>full = ''docs/blank.txt'', name = ''blank.txt'', suffix = ''.txt''\<rparr>,
                 \<lparr>full = ''docs/broken.PDF'', name = ''broken.PDF'', suffix = ''.PDF''\<rparr>,
                 \<lparr>full = ''docs/notes.md'', name = ''notes.md'', suffix = ''.md''\<rparr>]
      else None)"

definition demo_externals :: externals where
  "demo_externals =
     \<lparr>embeddings_create = length_embedder,
      chat_completions_create = (\<lambda>system_text user_text. Inr [''I do not know.'']),
      collection_add = engine_add,
      collection_query = engine_query discrete_metric,
      uuid4 = (\<lambda>k. ''id-'' @ str_nat k),
      rglob = docs_listing,
      read_file = (\<lambda>fp. Inr '' \<newline> ''),
      pdf_pages = (\<lambda>fp. Inl (Rejected ''not a PDF'')),
      docx_paragraphs = (\<lambda>fp. Inr []),
      split_text = (\<lambda>s. [s]),
      format_2f = (\<lambda>x. ''0.00'')\<rparr>"

definition empty_world :: world where
  "empty_world = \<lparr>calls = [], files = empty_disk, collection = \<lparr>dimension = 1, records = []\<rparr>\<rparr>"

text \<open>A collection of dimension one with three records, and one chunk to add.\<close>

definition indexed_world :: world where
  "indexed_world =
     \<lparr>calls = [], files = empty_disk,
      collection =
        \<lparr>dimension = 1,
         records =
           [\<lparr>rec_id = ''a'', rec_embedding = [0], rec_document = ''zero'', rec_metadata = []\<rparr>,
            \<lparr>rec_id = ''b'', rec_embedding = [1], rec_document = ''one'', rec_metadata = []\<rparr>,
            \<lparr>rec_id = ''c'', rec_embedding = [2], rec_document = ''two'', rec_metadata = []\<rparr>]\<rparr>\<rparr>"

definition three_chunk :: chunk where
  "three_chunk = \<lparr>content = ''three'', metadata = [(''filename'', Str ''n.txt'')]\<rparr>"

text \<open>
  A file yields content when its type is supported, its extraction does not raise and
  the extracted text is not blank.
\<close>

definition yields_content :: "externals \<Rightarrow> file_path \<Rightarrow> bool" where
  "yields_content ext fp =
     (lower (suffix fp) \<in> set supported_extensions \<and>
      (case extract_text ext fp of Inl e \<Rightarrow> False | Inr text \<Rightarrow> strip text \<noteq> []))"

text \<open>An embedding provider that refuses an empty batch.\<close>

definition strict_externals :: externals where
  "strict_externals =
     demo_externals
       \<lparr>embeddings_create :=
          (\<lambda>inp. if inp = Texts [] then Inl (Rejected ''empty input'') else length_embedder inp)\<rparr>"


section \<open>The conversation store\<close>

lemma slice_from_neg:
  "0 < n \<Longrightarrow> slice_from (- n) xs = last_n (nat n) xs"
  by (auto simp: slice_from_def last_n_def Let_def max_def intro!: arg_cong2 [where f = drop])

lemma slice_from_zero: "slice_from 0 xs = xs"
  by (simp add: slice_from_def)

lemma length_last_n: "length (last_n n xs) = min n (length xs)"
  by (simp add: last_n_def)

lemma last_n_all: "length xs \<le> n \<Longrightarrow> last_n n xs = xs"
  by (simp add: last_n_def)

lemma last_n_append_last_n:
  "last_n n (last_n n xs @ ys) = last_n n (xs @ ys)"
  by (cases "n \<le> length xs") (auto simp: last_n_def min_def ac_simps)

text \<open>Reading and writing at a path that names a file position.\<close>

lemma get_history_stored:
  "place_of d (get_user_file mp uid) = Place n \<Longrightarrow> stored d n = Some c \<Longrightarrow>
   get_history mp clk d uid =
     (case c of Document h \<Rightarrow> Inr h | Truncated \<Rightarrow> Inl JSONDecodeError)"
  by (cases c) (simp_all add: get_history_def path_exists_def json_load_def)

lemma get_history_absent:
  "place_of d (get_user_file mp uid) = Place n \<Longrightarrow> stored d n = None \<Longrightarrow>
   get_history mp clk d uid =
     Inr \<lparr>user_id = uid, messages = [], created_at = new_created clk,
          updated_at = new_updated clk\<rparr>"
  by (simp add: get_history_def path_exists_def)

lemma get_history_no_directory:
  "place_of d (get_user_file mp uid) = No_such_directory \<Longrightarrow>
   get_history mp clk d uid =
     Inr \<lparr>user_id = uid, messages = [], created_at = new_created clk,
          updated_at = new_updated clk\<rparr>"
  by (simp add: get_history_def path_exists_def)

lemma save_history_place:
  "place_of d (get_user_file mp uid) = Place n \<Longrightarrow>
   save_history mp uid h d = Inr (d\<lparr>stored := (stored d)(n \<mapsto> Document h)\<rparr>)"
  by (simp add: save_history_def open_w_def json_dump_def)

lemma save_history_no_directory:
  "place_of d (get_user_file mp uid) = No_such_directory \<Longrightarrow>
   save_history mp uid h d = Inl (OpenFailed (get_user_file mp uid))"
  by (simp add: save_history_def open_w_def)

lemma save_history_stopped_complete:
  "save_history_stopped (Suc (Suc k)) mp uid h d = save_history mp uid h d"
  by (simp add: save_history_stopped_def save_history_def split: sum.splits)

text \<open>
  With a window of at least one interaction the cut keeps the last \<open>max_history\<close>
  messages of the list after the append.
\<close>

lemma messages_appended:
  assumes "0 < max_history"
  shows "messages (appended max_history clk um am rc h) =
         last_n (nat max_history)
           (messages h @ [\<lparr>timestamp = at_interaction clk, user = um, assistant = am,
              retrieved_docs = (case rc of None \<Rightarrow> 0 | Some ds \<Rightarrow> length ds)\<rparr>])"
  using assms
  by (auto simp: appended_def Let_def slice_from_neg last_n_all split: option.splits)

lemma length_messages_appended:
  assumes "0 < max_history"
  shows "int (length (messages (appended max_history clk um am rc h))) \<le> max_history"
  using assms by (simp add: messages_appended length_last_n)

text \<open>
  A run of calls on a readable record, window at least one: the record stays readable
  and holds the last \<open>max_history\<close> of the old messages followed by the appended ones,
  in the order of the calls.
\<close>

lemma add_interactions_messages:
  assumes "0 < max_history"
      and "place_of d (get_user_file mp uid) = Place n"
      and "stored d n = Some (Document h)"
  shows "\<exists>h'. add_interactions max_history mp uid cs d
                 = Inr (d\<lparr>stored := (stored d)(n \<mapsto> Document h')\<rparr>) \<and>
           messages h' = (if cs = [] then messages h
                          else last_n (nat max_history) (messages h @ map interaction_of cs))"
  using assms(2,3)
proof (induction cs arbitrary: d h)
  case Nil
  have "d\<lparr>stored := (stored d)(n \<mapsto> Document h)\<rparr> = d"
    using Nil.prems(2) by (simp add: map_upd_triv)
  then have "add_interactions max_history mp uid [] d
               = Inr (d\<lparr>stored := (stored d)(n \<mapsto> Document h)\<rparr>)"
    by simp
  then show ?case by (metis (full_types))
next
  case (Cons c cs)
  let ?h1 = "appended max_history (call_clock c) (call_user_message c)
               (call_assistant_message c) (call_retrieved c) h"
  let ?d1 = "d\<lparr>stored := (stored d)(n \<mapsto> Document ?h1)\<rparr>"
  have step: "add_interaction max_history mp (call_clock c) uid (call_user_message c)
               (call_assistant_message c) (call_retrieved c) d = Inr ?d1"
    using Cons.prems
    by (simp add: add_interaction_def get_history_stored save_history_place)
  have m1: "messages ?h1 = last_n (nat max_history) (messages h @ [interaction_of c])"
    using assms(1) by (simp add: messages_appended interaction_of_def)
  have p1: "place_of ?d1 (get_user_file mp uid) = Place n"
    using Cons.prems(1) by simp
  have s1: "stored ?d1 n = Some (Document ?h1)" by simp
  from Cons.IH [OF p1 s1] obtain h' where
    run: "add_interactions max_history mp uid cs ?d1
            = Inr (?d1\<lparr>stored := (stored ?d1)(n \<mapsto> Document h')\<rparr>)" and
    m': "messages h' = (if cs = [] then messages ?h1
                        else last_n (nat max_history) (messages ?h1 @ map interaction_of cs))"
    by blast
  have msgs: "messages h' = last_n (nat max_history) (messages h @ map interaction_of (c # cs))"
    using m' m1 by (simp add: last_n_append_last_n)
  have "add_interactions max_history mp uid (c # cs) d
          = Inr (d\<lparr>stored := (stored d)(n \<mapsto> Document h')\<rparr>)"
    using step run by simp
  with msgs show ?case by (metis list.distinct(1))
qed

text \<open>The example directory: what the paths of three user ids name.\<close>

lemma flat_places_alice: "flat_places (get_user_file ''mem'' ''alice'') = Place ''mem/alice.json''"
  by (simp add: flat_places_def get_user_file_def)

lemma flat_places_dot_alice:
  "flat_places (get_user_file ''mem'' ''./alice'') = Place ''mem/alice.json''"
  by (simp add: flat_places_def get_user_file_def)

lemma flat_places_separator:
  "flat_places (get_user_file ''mem'' ''a/b'') = No_such_directory"
  by (simp add: flat_places_def get_user_file_def)

text \<open>
  An id with a separator names a path in a missing directory: the read finds no file and
  starts a new record, and the write raises. An id that names the path of another id
  reads that id's record.
\<close>

lemma add_interaction_separator:
  "add_interaction 10 ''mem'' clock0 ''a/b'' ''hi'' ''hello'' (None :: unit list option)
     alice_disk = Inl (OpenFailed (Div ''mem'' ''a/b.json''))"
  using flat_places_separator
  by (simp add: add_interaction_def get_history_no_directory save_history_no_directory
      alice_disk_def get_user_file_def)

lemma get_history_same_path:
  "get_history ''mem'' clock0 alice_disk ''./alice'' = Inr alice_history"
  using flat_places_dot_alice
  by (simp add: get_history_def path_exists_def json_load_def alice_disk_def)

text \<open>
  C1. The claim: after every sequence of \<open>add_interaction\<close> calls the stored record
  has at most \<open>max_history\<close> messages. The cut is \<open>messages[-max_history:]\<close>, which for
  \<open>max_history = 0\<close> is the whole list: with a window of zero the first call on an empty
  store leaves one message in the record.
\<close>

theorem add_interaction_zero_window:
  "add_interaction 0 ''mem'' clock0 ''alice'' ''hi'' ''hello'' (None :: unit list option)
     empty_disk = Inr alice_disk"
proof -
  have p: "place_of empty_disk (get_user_file ''mem'' ''alice'') = Place ''mem/alice.json''"
    by (simp add: empty_disk_def flat_places_alice)
  have s: "stored empty_disk ''mem/alice.json'' = None"
    by (simp add: empty_disk_def)
  have a: "appended 0 clock0 ''hi'' ''hello'' (None :: unit list option)
             \<lparr>user_id = ''alice'', messages = [], created_at = new_created clock0,
              updated_at = new_updated clock0\<rparr> = alice_history"
    by (simp add: appended_def slice_from_def clock0_def alice_history_def greeting_def)
  show ?thesis
    by (simp add: add_interaction_def get_history_absent [OF p s] save_history_place [OF p] a)
       (simp add: empty_disk_def alice_disk_def)
qed

text \<open>
  C7. The claim: for every \<open>n \<ge> 0\<close> the context renders exactly the last \<open>n\<close>
  interactions. The slice is \<open>messages[-n_messages:]\<close>, which for \<open>n_messages = 0\<close> is
  the whole list: asked for the last zero interactions of a record with one interaction,
  the function renders that interaction.
\<close>

theorem get_conversation_context_zero:
  "get_conversation_context ''mem'' clock0 alice_disk ''alice'' 0
     = Inr ''Previous conversation:\<newline>User: hi\<newline>Assistant: hello\<newline>\<newline>''"
proof -
  have p: "place_of alice_disk (get_user_file ''mem'' ''alice'') = Place ''mem/alice.json''"
    by (simp add: alice_disk_def flat_places_alice)
  have s: "stored alice_disk ''mem/alice.json'' = Some (Document alice_history)"
    by (simp add: alice_disk_def)
  show ?thesis
    by (simp add: get_conversation_context_def get_history_stored [OF p s] slice_from_def
        render_def alice_history_def greeting_def)
qed

text \<open>
  For \<open>n \<ge> 1\<close> the context is the header followed by the last \<open>n\<close> stored
  interactions, oldest first, and the empty text when there is none.
\<close>

lemma render_concat:
  "render acc msgs =
     acc @ concat (map (\<lambda>msg. ''User: '' @ user msg @ ''\<newline>''
                            @ ''Assistant: '' @ assistant msg @ ''\<newline>\<newline>'') msgs)"
  unfolding render_def by (induction msgs arbitrary: acc) simp_all

lemma get_conversation_context_positive:
  assumes "0 < n" "get_history mp clk d uid = Inr h"
  shows "get_conversation_context mp clk d uid n =
           Inr (if last_n (nat n) (messages h) = [] then []
                else render ''Previous conversation:\<newline>'' (last_n (nat n) (messages h)))"
  using assms by (simp add: get_conversation_context_def slice_from_neg Let_def)

text \<open>
  C8, as stated. The claim: a crash between the read and the completed write leaves the
  previous record readable. A call stopped after the file was opened for writing leaves
  a file that \<open>json.load\<close> rejects, although the record was readable before the call.
\<close>

theorem save_not_atomic_counterexample:
  "get_history ''mem'' clock0 alice_disk ''alice'' = Inr alice_history \<and>
   read_after_stop 1 10 ''mem'' clock0 ''alice'' ''more'' ''sure'' (None :: unit list option)
     alice_disk = Inl JSONDecodeError"
proof -
  have p: "place_of alice_disk (get_user_file ''mem'' ''alice'') = Place ''mem/alice.json''"
    by (simp add: alice_disk_def flat_places_alice)
  have s: "stored alice_disk ''mem/alice.json'' = Some (Document alice_history)"
    by (simp add: alice_disk_def)
  have r: "get_history ''mem'' clock0 alice_disk ''alice'' = Inr alice_history"
    by (simp add: get_history_stored [OF p s])
  have "get_history ''mem'' clock0
          (alice_disk\<lparr>stored := (stored alice_disk)(''mem/alice.json'' \<mapsto> Truncated)\<rparr>) ''alice''
        = Inl JSONDecodeError"
    by (rule get_history_stored [where n = "''mem/alice.json''" and c = Truncated, simplified])
       (simp_all add: p)
  then show ?thesis
    using r p
    by (simp add: read_after_stop_def add_interaction_stopped_def save_history_stopped_def
        open_w_def)
qed

text \<open>
  C8, amended. Append to the Conversation Store does not persist atomically. For a user
  whose file holds a valid record: a run stopped before the file is opened for writing
  leaves the previous record readable; a run stopped after the open and before the dump
  is complete leaves the file truncated, the next read fails and the previous record is
  lost; once the dump is complete the file holds the new record, which the next read
  returns.
\<close>

theorem add_interaction_stopped_states:
  assumes "place_of d (get_user_file mp uid) = Place n"
      and "stored d n = Some (Document h)"
  shows "add_interaction_stopped 0 mh mp clk uid um am rc d = Inr d \<and>
         read_after_stop 0 mh mp clk uid um am rc d = Inr h \<and>
         add_interaction_stopped 1 mh mp clk uid um am rc d
           = Inr (d\<lparr>stored := (stored d)(n \<mapsto> Truncated)\<rparr>) \<and>
         read_after_stop 1 mh mp clk uid um am rc d = Inl JSONDecodeError \<and>
         add_interaction_stopped (Suc (Suc k)) mh mp clk uid um am rc d
           = add_interaction mh mp clk uid um am rc d \<and>
         add_interaction mh mp clk uid um am rc d
           = Inr (d\<lparr>stored := (stored d)(n \<mapsto> Document (appended mh clk um am rc h))\<rparr>) \<and>
         read_after_stop (Suc (Suc k)) mh mp clk uid um am rc d
           = Inr (appended mh clk um am rc h)"
proof -
  have r: "get_history mp clk d uid = Inr h"
    using assms by (simp add: get_history_stored)
  have t: "get_history mp clk (d\<lparr>stored := (stored d)(n \<mapsto> Truncated)\<rparr>) uid
             = Inl JSONDecodeError"
    using assms(1)
    by (simp add: get_history_stored [where n = n and c = Truncated])
  have w: "get_history mp clk
             (d\<lparr>stored := (stored d)(n \<mapsto> Document (appended mh clk um am rc h))\<rparr>) uid
             = Inr (appended mh clk um am rc h)"
    using assms(1)
    by (simp add: get_history_stored
          [where n = n and c = "Document (appended mh clk um am rc h)"])
  show ?thesis
    using assms(1) r t w
    by (simp add: read_after_stop_def add_interaction_stopped_def add_interaction_def
        save_history_stopped_def save_history_def open_w_def json_dump_def)
qed

theorem add_interaction_stopped_states_witness:
  "place_of alice_disk (get_user_file ''mem'' ''alice'') = Place ''mem/alice.json'' \<and>
   stored alice_disk ''mem/alice.json'' = Some (Document alice_history) \<and>
   read_after_stop 0 10 ''mem'' clock0 ''alice'' ''more'' ''sure'' (None :: unit list option)
     alice_disk = Inr alice_history \<and>
   read_after_stop 1 10 ''mem'' clock0 ''alice'' ''more'' ''sure'' (None :: unit list option)
     alice_disk = Inl JSONDecodeError \<and>
   read_after_stop 2 10 ''mem'' clock0 ''alice'' ''more'' ''sure'' (None :: unit list option)
     alice_disk
     = Inr \<lparr>user_id = ''alice'',
            messages = [greeting, \<lparr>timestamp = ''t2'', user = ''more'', assistant = ''sure'',
                                    retrieved_docs = 0\<rparr>],
            created_at = ''t0'', updated_at = ''t3''\<rparr>"
proof -
  have p: "place_of alice_disk (get_user_file ''mem'' ''alice'') = Place ''mem/alice.json''"
    by (simp add: alice_disk_def flat_places_alice)
  have s: "stored alice_disk ''mem/alice.json'' = Some (Document alice_history)"
    by (simp add: alice_disk_def)
  have a: "appended 10 clock0 ''more'' ''sure'' (None :: unit list option) alice_history
      = \<lparr>user_id = ''alice'',
         messages = [greeting, \<lparr>timestamp = ''t2'', user = ''more'', assistant = ''sure'',
                                 retrieved_docs = 0\<rparr>],
         created_at = ''t0'', updated_at = ''t3''\<rparr>"
    by (simp add: appended_def alice_history_def clock0_def)
  show ?thesis
    using add_interaction_stopped_states
            [OF p s, of 10 clock0 "''more''" "''sure''" "None :: unit list option" 0] p s a
    by (simp add: numeral_2_eq_2)
qed

section \<open>The embedding client\<close>

lemma isspace_newline: "isspace (CHR ''\<newline>'')"
  by (simp add: isspace_def)

lemma isspace_space: "isspace (CHR '' '')"
  by (simp add: isspace_def)

lemma isspace_codes:
  "isspace c = (of_char c \<in> set [9, 10, 11, 12, 13, 28, 29, 30, 31, 32, 133, 160 :: nat])"
  unfolding isspace_def Let_def by (simp del: of_char_eq_iff) arith

lemma lstrip_Nil_or_start: "lstrip s = [] \<or> \<not> isspace (hd (lstrip s))"
  unfolding lstrip_def by (metis hd_dropWhile)

lemma strip_Nil_iff: "strip s = [] \<longleftrightarrow> list_all isspace s"
proof -
  have "strip s = [] \<longleftrightarrow> list_all isspace (lstrip s)"
    by (simp add: strip_def rstrip_def dropWhile_eq_Nil_conv list_all_iff)
  also have "\<dots> \<longleftrightarrow> lstrip s = []"
    using lstrip_Nil_or_start [of s] by (cases "lstrip s") auto
  also have "\<dots> \<longleftrightarrow> list_all isspace s"
    by (simp add: lstrip_def dropWhile_eq_Nil_conv list_all_iff)
  finally show ?thesis .
qed

lemma rstrip_decomp: "s = rstrip s @ rev (takeWhile isspace (rev s))"
proof -
  have "rev (takeWhile isspace (rev s) @ dropWhile isspace (rev s)) = rev (rev s)"
    by (simp only: takeWhile_dropWhile_id)
  then have "rev (dropWhile isspace (rev s)) @ rev (takeWhile isspace (rev s)) = s"
    by (simp only: rev_append rev_rev_ident)
  then show ?thesis by (simp only: rstrip_def)
qed

lemma strip_decomp:
  "\<exists>pre post. pre @ strip s @ post = s \<and> list_all isspace pre \<and> list_all isspace post"
proof -
  let ?pre = "takeWhile isspace s"
  let ?post = "rev (takeWhile isspace (rev (lstrip s)))"
  have "s = ?pre @ lstrip s" by (simp add: lstrip_def)
  also have "lstrip s = strip s @ ?post"
    using rstrip_decomp [of "lstrip s"] by (simp add: strip_def)
  finally have "?pre @ strip s @ ?post = s" by simp
  moreover have "list_all isspace ?pre"
    by (simp add: list_all_iff) (meson set_takeWhileD)
  moreover have "list_all isspace ?post"
    by (simp add: list_all_iff) (meson set_takeWhileD)
  ultimately show ?thesis by blast
qed

lemma rstrip_last: "rstrip s \<noteq> [] \<Longrightarrow> \<not> isspace (last (rstrip s))"
  unfolding rstrip_def by (simp add: last_rev hd_dropWhile)

lemma rstrip_hd: "rstrip s \<noteq> [] \<Longrightarrow> hd (rstrip s) = hd s"
  using rstrip_decomp [of s] by (metis hd_append2)

lemma strip_ends:
  assumes "strip s \<noteq> []"
  shows "\<not> isspace (hd (strip s)) \<and> \<not> isspace (last (strip s))"
proof -
  have l: "lstrip s \<noteq> []" using assms by (auto simp: strip_def rstrip_def)
  then have "\<not> isspace (hd (lstrip s))" using lstrip_Nil_or_start [of s] by simp
  moreover have "hd (strip s) = hd (lstrip s)"
    using assms rstrip_hd [of "lstrip s"] by (simp add: strip_def)
  moreover have "\<not> isspace (last (strip s))"
    using assms rstrip_last [of "lstrip s"] by (simp add: strip_def)
  ultimately show ?thesis by simp
qed

lemma set_strip: "set (strip s) \<subseteq> set s"
proof -
  obtain pre post where "pre @ strip s @ post = s" using strip_decomp by blast
  then have "set s = set pre \<union> set (strip s) \<union> set post" by (metis set_append Un_assoc)
  then show ?thesis by blast
qed

lemma newline_not_in_replace_newline: "CHR ''\<newline>'' \<notin> set (replace_newline s)"
  by (auto simp: replace_newline_def)

lemma list_all_isspace_replace_newline:
  "list_all isspace (replace_newline s) \<longleftrightarrow> list_all isspace s"
  by (induction s) (auto simp: replace_newline_def isspace_newline isspace_space)

lemma normalized_Nil_iff: "strip (replace_newline s) = [] \<longleftrightarrow> list_all isspace s"
  by (simp add: strip_Nil_iff list_all_isspace_replace_newline)

lemma raised_Inr: "raised r = Inr x \<longleftrightarrow> r = Inr x"
  by (cases r) (simp_all add: raised_def)

lemma fst_generate_embedding:
  "fst (generate_embedding ext text w) =
     (if strip (replace_newline text) = [] then Inl (ValueError ''Text cannot be empty'')
      else case raised (embeddings_create ext (Text (strip (replace_newline text)))) of
             Inl e \<Rightarrow> Inl e
           | Inr data \<Rightarrow> first_item data)"
  by (simp add: generate_embedding_def Let_def)

text \<open>
  C4. For every text there is a normalized text \<open>t\<close>: the text with every line feed
  replaced by a space is \<open>t\<close> between a prefix and a suffix of whitespace, \<open>t\<close> neither
  starts nor ends with whitespace, and \<open>t\<close> holds no line feed. The single-text operation
  raises \<open>ValueError('Text cannot be empty')\<close> exactly when \<open>t\<close> is empty, which is
  exactly when the text consists of whitespace only, and then nothing is submitted.
  Otherwise exactly one request is made, its input is \<open>t\<close>, and the result is the first
  vector of the answer. Whitespace is the characters with the codes listed.
\<close>

theorem generate_embedding_empty_input:
  "(\<exists>t pre post.
      pre @ t @ post = map (\<lambda>c. if c = CHR ''\<newline>'' then CHR '' '' else c) text \<and>
      list_all isspace pre \<and> list_all isspace post \<and>
      (t = [] \<or> (\<not> isspace (hd t) \<and> \<not> isspace (last t))) \<and>
      CHR ''\<newline>'' \<notin> set t \<and>
      (t = []) = list_all isspace text \<and>
      (fst (generate_embedding ext text w) = Inl (ValueError ''Text cannot be empty''))
        = (t = []) \<and>
      (if t = [] then snd (generate_embedding ext text w) = w
       else calls (snd (generate_embedding ext text w))
              = calls w @ [Embeddings_create (Text t)] \<and>
            files (snd (generate_embedding ext text w)) = files w \<and>
            collection (snd (generate_embedding ext text w)) = collection w \<and>
            fst (generate_embedding ext text w) =
              (case embeddings_create ext (Text t) of
                 Inl e \<Rightarrow> Inl (ProviderError e)
               | Inr [] \<Rightarrow> Inl IndexError
               | Inr (v # vs) \<Rightarrow> Inr v))) \<and>
   isspace c = (of_char c \<in> set [9, 10, 11, 12, 13, 28, 29, 30, 31, 32, 133, 160 :: nat])"
proof -
  let ?s = "map (\<lambda>c. if c = CHR ''\<newline>'' then CHR '' '' else c) text"
  let ?t = "strip (replace_newline text)"
  have s: "replace_newline text = ?s"
    by (simp add: replace_newline_def)
  obtain pre post where d: "pre @ ?t @ post = ?s" "list_all isspace pre" "list_all isspace post"
    using strip_decomp [of "replace_newline text"] unfolding s by blast
  have ends: "?t = [] \<or> (\<not> isspace (hd ?t) \<and> \<not> isspace (last ?t))"
    using strip_ends [of "replace_newline text"] by blast
  have nl: "CHR ''\<newline>'' \<notin> set ?t"
    using set_strip [of "replace_newline text"] newline_not_in_replace_newline [of "text"]
    by blast
  have blank: "(?t = []) = list_all isspace text"
    by (rule normalized_Nil_iff)
  have raise: "(fst (generate_embedding ext text w) = Inl (ValueError ''Text cannot be empty''))
                 = (?t = [])"
    by (auto simp: fst_generate_embedding raised_def first_item_def
          split: sum.splits list.splits)
  have run: "if ?t = [] then snd (generate_embedding ext text w) = w
       else calls (snd (generate_embedding ext text w))
              = calls w @ [Embeddings_create (Text ?t)] \<and>
            files (snd (generate_embedding ext text w)) = files w \<and>
            collection (snd (generate_embedding ext text w)) = collection w \<and>
            fst (generate_embedding ext text w) =
              (case embeddings_create ext (Text ?t) of
                 Inl e \<Rightarrow> Inl (ProviderError e)
               | Inr [] \<Rightarrow> Inl IndexError
               | Inr (v # vs) \<Rightarrow> Inr v)"
    by (simp add: generate_embedding_def Let_def logged_def raised_def first_item_def
          split: sum.splits list.splits)
  show ?thesis
    using d ends nl blank raise run isspace_codes [of c] by blast
qed

text \<open>
  An example: a text with a line feed inside and whitespace at both ends is submitted
  with a space for the line feed and without the ends; a blank text is refused.
\<close>

theorem generate_embedding_empty_input_witness:
  "calls (snd (generate_embedding demo_externals '' a\<newline>b \<newline>'' empty_world))
     = [Embeddings_create (Text ''a b'')] \<and>
   fst (generate_embedding demo_externals '' a\<newline>b \<newline>'' empty_world) = Inr [3] \<and>
   fst (generate_embedding demo_externals '' \<newline> '' empty_world)
     = Inl (ValueError ''Text cannot be empty'') \<and>
   snd (generate_embedding demo_externals '' \<newline> '' empty_world) = empty_world"
proof -
  have t: "strip (replace_newline '' a\<newline>b \<newline>'') = ''a b''"
    by (simp add: strip_def lstrip_def rstrip_def replace_newline_def isspace_def)
  have b: "strip (replace_newline '' \<newline> '') = []"
    by (simp add: normalized_Nil_iff isspace_def)
  show ?thesis
    using generate_embedding_empty_input
            [of "'' a\<newline>b \<newline>''" demo_externals empty_world "CHR '' ''"] t b
    by (simp add: generate_embedding_def Let_def logged_def raised_def first_item_def
        demo_externals_def length_embedder_def empty_world_def)
qed

text \<open>
  C9. With an order-preserving provider and texts that are all non-empty after the
  normalization, a batch that returns has one vector per text, and the vector at
  position \<open>i\<close> is what the single-text operation returns for text \<open>i\<close>: both paths
  normalize in the same way.
\<close>

theorem batch_single_consistency:
  assumes "order_preserving (embeddings_create ext)"
      and "\<forall>t \<in> set texts. strip (replace_newline t) \<noteq> []"
      and "fst (generate_embeddings_batch ext texts w) = Inr vs"
      and "i < length texts"
  shows "length vs = length texts \<and>
         fst (generate_embedding ext (texts ! i) w') = Inr (vs ! i)"
proof -
  let ?clean = "\<lambda>text. strip (replace_newline text)"
  have batch: "embeddings_create ext (Texts (map ?clean texts)) = Inr vs"
    using assms(3) by (simp add: generate_embeddings_batch_def Let_def raised_Inr)
  from assms(1) batch have len: "length vs = length (map ?clean texts)"
    and each: "\<forall>j<length (map ?clean texts).
                 embeddings_create ext (Text (map ?clean texts ! j)) = Inr [vs ! j]"
    unfolding order_preserving_def by blast+
  from each assms(4) have one: "embeddings_create ext (Text (?clean (texts ! i))) = Inr [vs ! i]"
    by simp
  have "?clean (texts ! i) \<noteq> []"
    using assms(2,4) by simp
  then have "fst (generate_embedding ext (texts ! i) w') = Inr (vs ! i)"
    using one by (simp add: fst_generate_embedding raised_def first_item_def)
  with len show ?thesis by simp
qed

lemma order_preserving_length_embedder: "order_preserving length_embedder"
  by (auto simp: order_preserving_def length_embedder_def)

theorem batch_single_consistency_witness:
  "order_preserving (embeddings_create demo_externals) \<and>
   strip (replace_newline ''a'') \<noteq> [] \<and>
   strip (replace_newline ''b c\<newline>'') \<noteq> [] \<and>
   fst (generate_embeddings_batch demo_externals [''a'', ''b c\<newline>''] empty_world)
     = Inr [[1], [3]] \<and>
   (1::nat) < length [''a'', ''b c\<newline>''] \<and>
   fst (generate_embedding demo_externals ''b c\<newline>'' empty_world) = Inr [3]"
proof -
  have op: "order_preserving (embeddings_create demo_externals)"
    by (simp add: demo_externals_def order_preserving_length_embedder)
  have ne: "\<forall>t \<in> set [''a'', ''b c\<newline>'']. strip (replace_newline t) \<noteq> []"
    by (simp add: normalized_Nil_iff isspace_def)
  have b: "fst (generate_embeddings_batch demo_externals [''a'', ''b c\<newline>''] empty_world)
     = Inr [[1], [3]]"
    by (simp add: generate_embeddings_batch_def Let_def demo_externals_def length_embedder_def
        raised_def strip_def lstrip_def rstrip_def replace_newline_def isspace_def)
  have i: "(1::nat) < length [''a'', ''b c\<newline>'']" by simp
  show ?thesis
    using batch_single_consistency [OF op ne b i, of empty_world] op ne b by simp
qed

text \<open>
  C10. The batch operation has no emptiness check. For the list holding the single text
  of one line feed, which is empty after the normalization and which the single-text
  operation refuses, the batch operation submits the list of the one empty text to the
  provider and returns whatever the provider answers, never the \<open>ValueError\<close>.
\<close>

theorem batch_accepts_blank_text:
  "strip (replace_newline ''\<newline>'') = [] \<and>
   fst (generate_embedding ext ''\<newline>'' w) = Inl (ValueError ''Text cannot be empty'') \<and>
   generate_embeddings_batch ext [''\<newline>''] w =
     (raised (embeddings_create ext (Texts [[]])), logged (Embeddings_create (Texts [[]])) w) \<and>
   fst (generate_embeddings_batch ext [''\<newline>''] w) \<noteq> Inl (ValueError ''Text cannot be empty'')"
proof -
  have e: "strip (replace_newline ''\<newline>'') = []"
    by (simp add: normalized_Nil_iff isspace_def)
  have "raised r \<noteq> Inl (ValueError ''Text cannot be empty'')" for r :: "provider_error + embedding list"
    by (cases r) (simp_all add: raised_def)
  then show ?thesis
    using e by (simp add: fst_generate_embedding generate_embeddings_batch_def Let_def)
qed

section \<open>The vector index client\<close>

lemma raised_Inl: "raised (Inl e) = Inl (ProviderError e)"
  by (simp add: raised_def)

lemma raised_Inr_simp: "raised (Inr x) = Inr x"
  by (simp add: raised_def)

text \<open>
  C5. With the index engine of section 4.4: \<open>add_documents\<close> raises its \<open>ValueError\<close>
  when the numbers of chunks and of embeddings differ, before anything reaches the
  engine (texts and metadata come from the same chunks, so their counts cannot differ);
  otherwise the engine's \<open>DimensionMismatch\<close> comes back unless every vector has the
  dimension of the collection; otherwise the result is the number of chunks, and that
  many records were added.
\<close>

theorem add_documents_errors:
  assumes "collection_add ext = engine_add"
  shows "fst (add_documents ext chunks embeddings w) =
           (if length chunks \<noteq> length embeddings
            then Inl (ValueError ''Number of chunks must match number of embeddings'')
            else if list_all (\<lambda>v. length v = dimension (collection w)) embeddings
            then Inr (length chunks)
            else Inl (ProviderError DimensionMismatch)) \<and>
         calls (snd (add_documents ext chunks embeddings w)) =
           (if length chunks \<noteq> length embeddings then calls w
            else calls w @ [Collection_add (map (uuid4 ext) [0..<length chunks]) embeddings
                              (map content chunks) (map metadata chunks)]) \<and>
         length (records (collection (snd (add_documents ext chunks embeddings w)))) =
           (if length chunks = length embeddings
               \<and> list_all (\<lambda>v. length v = dimension (collection w)) embeddings
            then length (records (collection w)) + length chunks
            else length (records (collection w)))"
proof (cases "length chunks = length embeddings")
  case False
  then show ?thesis by (simp add: add_documents_def)
next
  case len: True
  show ?thesis
  proof (cases "list_all (\<lambda>v. length v = dimension (collection w)) embeddings")
    case True
    then have "\<not> list_ex (\<lambda>v. length v \<noteq> dimension (collection w)) embeddings"
      by (simp add: list_all_iff list_ex_iff)
    with len True show ?thesis
      by (simp add: add_documents_def Let_def assms engine_add_def raised_Inr_simp logged_def)
  next
    case False
    then have "list_ex (\<lambda>v. length v \<noteq> dimension (collection w)) embeddings"
      by (simp add: list_all_iff list_ex_iff)
    with len False show ?thesis
      by (simp add: add_documents_def Let_def assms engine_add_def raised_Inl logged_def)
  qed
qed

theorem add_documents_errors_witness:
  "collection_add demo_externals = engine_add \<and>
   fst (add_documents demo_externals [three_chunk] [] indexed_world)
     = Inl (ValueError ''Number of chunks must match number of embeddings'') \<and>
   fst (add_documents demo_externals [three_chunk] [[3, 0]] indexed_world)
     = Inl (ProviderError DimensionMismatch) \<and>
   fst (add_documents demo_externals [three_chunk] [[3]] indexed_world) = Inr 1 \<and>
   length (records (collection (snd (add_documents demo_externals [three_chunk] [[3]]
     indexed_world)))) = 4"
proof -
  have e: "collection_add demo_externals = engine_add"
    by (simp add: demo_externals_def)
  have d: "dimension (collection indexed_world) = 1"
    and n: "length (records (collection indexed_world)) = 3"
    by (simp_all add: indexed_world_def)
  show ?thesis
    using add_documents_errors [OF e, of "[three_chunk]" "[]" indexed_world]
      add_documents_errors [OF e, of "[three_chunk]" "[[3, 0]]" indexed_world]
      add_documents_errors [OF e, of "[three_chunk]" "[[3]]" indexed_world] e d n
    by simp
qed

text \<open>The formatting loop on an answer whose rows are long enough.\<close>

lemma format_results_rows:
  assumes "documents results = ds # dss" "metadatas results = ms # mss"
      and "distances results = xs # xss"
      and "\<forall>i \<in> set is. i < length ds \<and> i < length ms \<and> i < length xs"
  shows "format_results results is acc =
           Inr (acc @ map (\<lambda>i. \<lparr>content = ds ! i, metadata = ms ! i,
                                 relevance_score = 1 - xs ! i\<rparr>) is)"
  using assms(4)
proof (induction "is" arbitrary: acc)
  case Nil
  then show ?case by simp
next
  case (Cons i "is")
  then show ?case
    using assms(1-3) by (simp add: row_item_def first_item_def item_def)
qed

lemma map_index_nth:
  "map (\<lambda>i. f (map g rs ! i) (map h rs ! i) (map k rs ! i)) [0..<length rs]
     = map (\<lambda>r. f (g r) (h r) (k r)) rs"
  by (rule nth_equalityI) simp_all

lemma similarity_search_engine:
  assumes "collection_query ext = engine_query metric"
  shows "fst (similarity_search ext q k w) =
           (if k < 0 then Inl (ProviderError (Rejected ''n_results''))
            else Inr (map (\<lambda>r. \<lparr>content = rec_document r, metadata = rec_metadata r,
                                  relevance_score = 1 - metric q (rec_embedding r)\<rparr>)
                        (nearest metric (collection w) k q)))"
proof (cases "k < 0")
  case True
  then show ?thesis
    by (simp add: similarity_search_def assms engine_query_def raised_Inl)
next
  case False
  let ?rs = "nearest metric (collection w) k q"
  let ?results = "\<lparr>ids = [map rec_id ?rs], documents = [map rec_document ?rs],
                   metadatas = [map rec_metadata ?rs],
                   distances = [map (\<lambda>r. metric q (rec_embedding r)) ?rs]\<rparr>"
  have "format_results ?results [0..<length ?rs] [] =
          Inr ([] @ map (\<lambda>i. \<lparr>content = map rec_document ?rs ! i,
                                metadata = map rec_metadata ?rs ! i,
                                relevance_score =
                                  1 - map (\<lambda>r. metric q (rec_embedding r)) ?rs ! i\<rparr>)
                      [0..<length ?rs])"
    by (rule format_results_rows [where dss = "[]" and mss = "[]" and xss = "[]"]) simp_all
  also have "\<dots> = Inr (map (\<lambda>r. \<lparr>content = rec_document r, metadata = rec_metadata r,
                                  relevance_score = 1 - metric q (rec_embedding r)\<rparr>) ?rs)"
    using map_index_nth [of "\<lambda>d m x. \<lparr>content = d, metadata = m, relevance_score = 1 - x\<rparr>"
            rec_document ?rs rec_metadata "\<lambda>r. metric q (rec_embedding r)"]
    by simp
  finally show ?thesis
    using False
    by (simp add: similarity_search_def assms engine_query_def raised_Inr_simp first_item_def)
qed

lemma sorted_nearest:
  "sorted (map (\<lambda>r. metric q (rec_embedding r)) (nearest metric c k q))"
proof -
  have "sorted (take (nat k) (map (\<lambda>r. metric q (rec_embedding r))
                  (sort_key (\<lambda>r. metric q (rec_embedding r)) (records c))))"
    by (rule sorted_wrt_take) simp
  then show ?thesis by (simp add: nearest_def take_map)
qed

lemma length_nearest: "0 \<le> k \<Longrightarrow> int (length (nearest metric c k q)) \<le> k"
  by (simp add: nearest_def)

text \<open>
  C6. With the index engine of section 4.4 (which rejects a negative \<open>k\<close>): a search that
  returns gives at most \<open>k\<close> results; their scores are one minus the distances the engine
  reports, position by position; the distances ascend and the scores descend; and under
  a metric with values between 0 and 2 every score lies between -1 and 1. For \<open>k \<ge> 0\<close>
  the search does return. Scores and distances are real numbers in the model.
\<close>

theorem similarity_search_ranked:
  assumes "collection_query ext = engine_query metric"
  shows "(k < 0 \<longrightarrow> fst (similarity_search ext q k w) = Inl (ProviderError (Rejected ''n_results''))) \<and>
         (0 \<le> k \<longrightarrow>
           (\<exists>docs. fst (similarity_search ext q k w) = Inr docs \<and>
              int (length docs) \<le> k \<and>
              map relevance_score docs =
                map (\<lambda>x. 1 - x)
                  (map (\<lambda>r. metric q (rec_embedding r)) (nearest metric (collection w) k q)) \<and>
              sorted (map (\<lambda>r. metric q (rec_embedding r)) (nearest metric (collection w) k q)) \<and>
              sorted (rev (map relevance_score docs)) \<and>
              ((\<forall>a b. 0 \<le> metric a b \<and> metric a b \<le> 2) \<longrightarrow>
                 (\<forall>d \<in> set docs. - 1 \<le> relevance_score d \<and> relevance_score d \<le> 1))))"
proof (intro conjI impI)
  assume "k < 0"
  then show "fst (similarity_search ext q k w) = Inl (ProviderError (Rejected ''n_results''))"
    by (simp add: similarity_search_engine [OF assms])
next
  assume k: "0 \<le> k"
  let ?rs = "nearest metric (collection w) k q"
  let ?dist = "\<lambda>r. metric q (rec_embedding r)"
  let ?docs = "map (\<lambda>r. \<lparr>content = rec_document r, metadata = rec_metadata r,
                          relevance_score = 1 - ?dist r\<rparr>) ?rs"
  have res: "fst (similarity_search ext q k w) = Inr ?docs"
    using k by (simp add: similarity_search_engine [OF assms])
  have len: "int (length ?docs) \<le> k"
    using length_nearest [OF k] by simp
  have scores: "map relevance_score ?docs = map (\<lambda>x. 1 - x) (map ?dist ?rs)"
    by (simp add: comp_def)
  have asc: "sorted (map ?dist ?rs)"
    by (rule sorted_nearest)
  have "sorted_wrt (\<lambda>x y. y \<le> x) (map (\<lambda>x. 1 - x) (map ?dist ?rs))"
    using asc by (simp add: sorted_wrt_map)
  then have desc: "sorted (rev (map relevance_score ?docs))"
    unfolding scores by (simp add: sorted_wrt_rev)
  have bound: "(\<forall>a b. 0 \<le> metric a b \<and> metric a b \<le> 2) \<longrightarrow>
                 (\<forall>d \<in> set ?docs. - 1 \<le> relevance_score d \<and> relevance_score d \<le> 1)"
  proof (intro impI)
    assume m: "\<forall>a b. 0 \<le> metric a b \<and> metric a b \<le> 2"
    show "\<forall>d \<in> set ?docs. - 1 \<le> relevance_score d \<and> relevance_score d \<le> 1"
      using m by simp
  qed
  show "\<exists>docs. fst (similarity_search ext q k w) = Inr docs \<and>
              int (length docs) \<le> k \<and>
              map relevance_score docs =
                map (\<lambda>x. 1 - x) (map ?dist ?rs) \<and>
              sorted (map ?dist ?rs) \<and>
              sorted (rev (map relevance_score docs)) \<and>
              ((\<forall>a b. 0 \<le> metric a b \<and> metric a b \<le> 2) \<longrightarrow>
                 (\<forall>d \<in> set docs. - 1 \<le> relevance_score d \<and> relevance_score d \<le> 1))"
    using res len scores asc desc bound by blast
qed

lemma nearest_indexed:
  "nearest discrete_metric (collection indexed_world) 2 [1] =
     [\<lparr>rec_id = ''b'', rec_embedding = [1], rec_document = ''one'', rec_metadata = []\<rparr>,
      \<lparr>rec_id = ''a'', rec_embedding = [0], rec_document = ''zero'', rec_metadata = []\<rparr>]"
  by (simp add: nearest_def indexed_world_def discrete_metric_def numeral_2_eq_2)

theorem similarity_search_ranked_witness:
  "collection_query demo_externals = engine_query discrete_metric \<and>
   (0::int) \<le> 2 \<and>
   fst (similarity_search demo_externals [1] 2 indexed_world)
     = Inr [\<lparr>content = ''one'', metadata = [], relevance_score = 1\<rparr>,
            \<lparr>content = ''zero'', metadata = [], relevance_score = 0\<rparr>] \<and>
   fst (similarity_search demo_externals [1] (- 1) indexed_world)
     = Inl (ProviderError (Rejected ''n_results''))"
proof -
  have e: "collection_query demo_externals = engine_query discrete_metric"
    by (simp add: demo_externals_def)
  have r: "fst (similarity_search demo_externals [1] 2 indexed_world)
     = Inr [\<lparr>content = ''one'', metadata = [], relevance_score = 1\<rparr>,
            \<lparr>content = ''zero'', metadata = [], relevance_score = 0\<rparr>]"
    by (simp add: similarity_search_engine [OF e] nearest_indexed discrete_metric_def)
  show ?thesis
    using similarity_search_ranked [OF e, of "- 1" "[1]" indexed_world]
      similarity_search_ranked [OF e, of 2 "[1]" indexed_world] e r
    by simp
qed

section \<open>The ingestion pipeline\<close>

lemma load_files_nothing:
  "\<not> list_ex (yields_content ext) fps \<Longrightarrow> load_files ext fps docs = docs"
  by (induction fps arbitrary: docs)
     (auto simp: yields_content_def split: sum.splits)

lemma lower_txt: "lower ''.txt'' = ''.txt''"
  by code_simp

lemma lower_PDF: "lower ''.PDF'' = ''.pdf''"
  by code_simp

lemma lower_md: "lower ''.md'' = ''.md''"
  by code_simp

lemma chunk_documents_Nil: "chunk_documents ext [] = []"
  by (simp add: chunk_documents_def)

text \<open>
  C2, as stated. The claim: when no file yields content the run returns 0 without a call
  to the embedding client or to the index client. In the directory \<open>docs\<close> (a blank text
  file, an unreadable PDF, a file of another type) no file yields content, and the run
  calls both clients with empty lists.
\<close>

theorem index_documents_calls_counterexample:
  "docs_listing ''docs'' =
     Some [\<lparr>full = ''docs/blank.txt'', name = ''blank.txt'', suffix = ''.txt''\<rparr>,
           \<lparr>full = ''docs/broken.PDF'', name = ''broken.PDF'', suffix = ''.PDF''\<rparr>,
           \<lparr>full = ''docs/notes.md'', name = ''notes.md'', suffix = ''.md''\<rparr>] \<and>
   load_documents demo_externals ''docs'' = Inr [] \<and>
   fst (index_documents demo_externals ''docs'' empty_world) = Inr 0 \<and>
   calls (snd (index_documents demo_externals ''docs'' empty_world))
     = [Embeddings_create (Texts []), Collection_add [] [] [] []]"
proof -
  have l: "load_documents demo_externals ''docs'' = Inr []"
    by (simp add: load_documents_def demo_externals_def docs_listing_def
        supported_extensions_def lower_txt lower_PDF lower_md extract_text_def read_txt_def
        read_pdf_def raised_def strip_def lstrip_def rstrip_def isspace_def)
  show ?thesis
    using l
    by (simp add: index_documents_def chunk_documents_Nil generate_embeddings_batch_def
        add_documents_def Let_def logged_def raised_def engine_add_def
        demo_externals_def length_embedder_def empty_world_def docs_listing_def)
qed

text \<open>
  C2, amended. When no file of an existing directory yields content, the run submits the
  empty batch to the embedding client. If the client answers with no vector, the run
  passes empty lists to the index client and returns 0 if the index accepts them; if
  the client answers with vectors the length check of \<open>add_documents\<close> raises; an error
  of either client ends the run with that error.
\<close>

theorem index_documents_nothing_loaded:
  assumes "rglob ext directory = Some fps"
      and "\<not> list_ex (yields_content ext) fps"
  shows "calls (snd (index_documents ext directory w)) =
           calls w @ Embeddings_create (Texts []) #
             (if embeddings_create ext (Texts []) = Inr []
              then [Collection_add [] [] [] []] else []) \<and>
         fst (index_documents ext directory w) =
           (case embeddings_create ext (Texts []) of
              Inl e \<Rightarrow> Inl (ProviderError e)
            | Inr [] \<Rightarrow>
                (case collection_add ext (collection w) [] [] [] [] of
                   Inl e \<Rightarrow> Inl (ProviderError e)
                 | Inr c \<Rightarrow> Inr 0)
            | Inr (v # vs) \<Rightarrow>
                Inl (ValueError ''Number of chunks must match number of embeddings''))"
proof -
  have l: "load_documents ext directory = Inr []"
    using assms by (simp add: load_documents_def load_files_nothing)
  show ?thesis
  proof (cases "embeddings_create ext (Texts [])")
    case (Inl e)
    with l show ?thesis
      by (simp add: index_documents_def chunk_documents_Nil generate_embeddings_batch_def
          Let_def logged_def raised_def)
  next
    case (Inr embeddings)
    show ?thesis
    proof (cases embeddings)
      case Nil
      with Inr l show ?thesis
        by (cases "collection_add ext (collection w) [] [] [] []")
           (simp_all add: index_documents_def chunk_documents_Nil
              generate_embeddings_batch_def add_documents_def Let_def logged_def raised_def)
    next
      case (Cons v vs)
      with Inr l show ?thesis
        by (simp add: index_documents_def chunk_documents_Nil generate_embeddings_batch_def
            add_documents_def Let_def logged_def raised_def)
    qed
  qed
qed

theorem index_documents_nothing_loaded_witness:
  "rglob strict_externals ''docs'' = docs_listing ''docs'' \<and>
   list_ex (yields_content strict_externals) (the (docs_listing ''docs'')) = False \<and>
   fst (index_documents strict_externals ''docs'' empty_world)
     = Inl (ProviderError (Rejected ''empty input'')) \<and>
   calls (snd (index_documents strict_externals ''docs'' empty_world))
     = [Embeddings_create (Texts [])]"
proof -
  let ?fps = "[\<lparr>full = ''docs/blank.txt'', name = ''blank.txt'', suffix = ''.txt''\<rparr>,
               \<lparr>full = ''docs/broken.PDF'', name = ''broken.PDF'', suffix = ''.PDF''\<rparr>,
               \<lparr>full = ''docs/notes.md'', name = ''notes.md'', suffix = ''.md''\<rparr>]"
  have r: "rglob strict_externals ''docs'' = Some ?fps"
    by (simp add: strict_externals_def demo_externals_def docs_listing_def)
  have n: "\<not> list_ex (yields_content strict_externals) ?fps"
    by (simp add: yields_content_def strict_externals_def demo_externals_def
        supported_extensions_def lower_txt lower_PDF lower_md extract_text_def read_txt_def
        read_pdf_def raised_def strip_def lstrip_def rstrip_def isspace_def)
  have c: "embeddings_create strict_externals (Texts []) = Inl (Rejected ''empty input'')"
    by (simp add: strict_externals_def)
  have w: "calls empty_world = []"
    by (simp add: empty_world_def)
  show ?thesis
    using index_documents_nothing_loaded [OF r n, of empty_world] r n c w
    by (simp add: docs_listing_def)
qed

section \<open>The query pipeline\<close>









end
